theory Spec2Isabelle
  imports Main "HOL-Library.Word" "HOL-Library.Multiset"
begin

unbundle bit_operations_syntax

section \<open>JavaScript values, as far as Main.js uses them\<close>

text \<open>
  A byte of a \<^verbatim>\<open>Uint8Array\<close> is an 8-bit word; a \<^verbatim>\<open>Uint8Array\<close> is a list of them.
  The numbers of Main.js are integers far below \<open>2 ^ 53\<close> (the largest is
  \<open>255 * 179426549 + 255\<close>), where JavaScript's doubles are exact, so a number is an
  \<open>int\<close>. The two other values the code meets are \<^verbatim>\<open>undefined\<close> and \<^verbatim>\<open>NaN\<close>.
\<close>

type_synonym u8 = "8 word"

datatype jsval = Undefined | NaN | Num int

text \<open>
  The objects that Main.js indexes with \<^verbatim>\<open>obj[k]\<close> and asks for \<^verbatim>\<open>obj.length\<close>:
  a \<^verbatim>\<open>Uint8Array\<close>, and a \<^verbatim>\<open>Promise\<close> (what \<^verbatim>\<open>crypto.subtle.digest(...).then(...)\<close>
  returns when it is not awaited). A promise has neither a \<^verbatim>\<open>length\<close> nor indexed
  properties.
\<close>

datatype jsobj = U8Array "u8 list" | PromiseObj

fun get_length :: "jsobj \<Rightarrow> jsval" where
  "get_length (U8Array bs) = Num (int (length bs))"
| "get_length PromiseObj = Undefined"

fun get_index :: "jsobj \<Rightarrow> jsval \<Rightarrow> jsval" where
  "get_index (U8Array bs) (Num n) =
     (if 0 \<le> n \<and> nat n < length bs then Num (uint (bs ! nat n)) else Undefined)"
| "get_index (U8Array bs) NaN = Undefined"
| "get_index (U8Array bs) Undefined = Undefined"
| "get_index PromiseObj k = Undefined"

text \<open>
  \<^verbatim>\<open>a % b\<close>: the operands go through ToNumber (\<^verbatim>\<open>undefined\<close> becomes \<^verbatim>\<open>NaN\<close>); the
  remainder has the sign of the dividend, and \<^verbatim>\<open>x % 0\<close> is \<^verbatim>\<open>NaN\<close>.
\<close>

fun js_rem :: "jsval \<Rightarrow> jsval \<Rightarrow> jsval" where
  "js_rem (Num a) (Num b) = (if b = 0 then NaN else Num (sgn a * (\<bar>a\<bar> mod \<bar>b\<bar>)))"
| "js_rem a b = NaN"

text \<open>\<^verbatim>\<open>a + b\<close> and \<^verbatim>\<open>a * b\<close> on numbers: \<^verbatim>\<open>NaN\<close> as soon as one operand is not a number.\<close>

fun js_add :: "jsval \<Rightarrow> jsval \<Rightarrow> jsval" where
  "js_add (Num a) (Num b) = Num (a + b)"
| "js_add a b = NaN"

fun js_mul :: "jsval \<Rightarrow> jsval \<Rightarrow> jsval" where
  "js_mul (Num a) (Num b) = Num (a * b)"
| "js_mul a b = NaN"

text \<open>
  ToInt32, used by the bitwise operators: \<^verbatim>\<open>undefined\<close> and \<^verbatim>\<open>NaN\<close> become 0, a number
  is wrapped to 32 bits. ToUint8, used when a value is stored in a \<^verbatim>\<open>Uint8Array\<close>:
  \<^verbatim>\<open>undefined\<close> and \<^verbatim>\<open>NaN\<close> become 0, a number is taken modulo 256.
\<close>

fun to_int32 :: "jsval \<Rightarrow> 32 word" where
  "to_int32 (Num n) = word_of_int n"
| "to_int32 NaN = 0"
| "to_int32 Undefined = 0"

fun to_uint8 :: "jsval \<Rightarrow> u8" where
  "to_uint8 (Num n) = word_of_int n"
| "to_uint8 NaN = 0"
| "to_uint8 Undefined = 0"

definition js_xor :: "jsval \<Rightarrow> jsval \<Rightarrow> jsval" where
  "js_xor a b = Num (sint (to_int32 a XOR to_int32 b))"

text \<open>
  A plain \<^verbatim>\<open>Array\<close>: its indexed elements, and its other properties by key (\<^verbatim>\<open>a[NaN]\<close>
  is the property named "NaN"). Reading a missing element or property gives
  \<^verbatim>\<open>undefined\<close>; writing past the end extends the array, the holes reading as
  \<^verbatim>\<open>undefined\<close>.
\<close>

record jsarray =
  elems :: "jsval list"
  props :: "jsval \<Rightarrow> jsval"

definition is_index :: "jsval \<Rightarrow> bool" where
  "is_index k = (case k of Num n \<Rightarrow> 0 \<le> n | _ \<Rightarrow> False)"

definition index_of :: "jsval \<Rightarrow> nat" where
  "index_of k = (case k of Num n \<Rightarrow> nat n | _ \<Rightarrow> 0)"

definition arr_get :: "jsarray \<Rightarrow> jsval \<Rightarrow> jsval" where
  "arr_get a k =
     (if is_index k
      then (if index_of k < length (elems a) then elems a ! index_of k else Undefined)
      else props a k)"

definition arr_set :: "jsarray \<Rightarrow> jsval \<Rightarrow> jsval \<Rightarrow> jsarray" where
  "arr_set a k v =
     (if is_index k
      then (if index_of k < length (elems a)
            then a\<lparr>elems := (elems a)[index_of k := v]\<rparr>
            else a\<lparr>elems := elems a @ replicate (index_of k - length (elems a)) Undefined @ [v]\<rparr>)
      else a\<lparr>props := (props a)(k := v)\<rparr>)"

section \<open>The dynamic S-box (Main.js, createDynamicSBox)\<close>

text \<open>
  \<^verbatim>\<open>const sBox = Array.from({length: 256}, (_, i) => i);
  for (let i = 0; i < 256; i++) {
      const swapIdx = (key[i % key.length] + i * 179426549) % 256;
      [sBox[i], sBox[swapIdx]] = [sBox[swapIdx], sBox[i]];
  }
  return sBox;\<close>
  The right-hand side of the destructuring assignment is read first
  (\<^verbatim>\<open>sBox[swapIdx]\<close>, then \<^verbatim>\<open>sBox[i]\<close>), then \<^verbatim>\<open>sBox[i]\<close> and \<^verbatim>\<open>sBox[swapIdx]\<close> are
  written in this order.
\<close>

definition swapIdx :: "jsobj \<Rightarrow> nat \<Rightarrow> jsval" where
  "swapIdx key i =
     js_rem (js_add (get_index key (js_rem (Num (int i)) (get_length key)))
                    (js_mul (Num (int i)) (Num 179426549)))
            (Num 256)"

definition sbox_swap :: "jsobj \<Rightarrow> nat \<Rightarrow> jsarray \<Rightarrow> jsarray" where
  "sbox_swap key i sBox =
     (let s = swapIdx key i;
          fst_val = arr_get sBox s;
          snd_val = arr_get sBox (Num (int i))
      in arr_set (arr_set sBox (Num (int i)) fst_val) s snd_val)"

definition identity_table :: jsarray where
  "identity_table = \<lparr>elems = map (\<lambda>i. Num (int i)) [0..<256], props = (\<lambda>k. Undefined)\<rparr>"

definition createDynamicSBox :: "jsobj \<Rightarrow> jsarray" where
  "createDynamicSBox key = fold (sbox_swap key) [0..<256] identity_table"

text \<open>The swap index as the claim writes it, for a key that is a byte array.\<close>

definition swap_index_bytes :: "u8 list \<Rightarrow> nat \<Rightarrow> nat" where
  "swap_index_bytes key i = nat ((uint (key ! (i mod length key)) + int i * 179426549) mod 256)"

definition swap_at :: "nat \<Rightarrow> nat \<Rightarrow> 'a list \<Rightarrow> 'a list" where
  "swap_at i j xs = xs[i := xs ! j, j := xs ! i]"

definition sbox_bytes :: "u8 list \<Rightarrow> nat list" where
  "sbox_bytes key = fold (\<lambda>i. swap_at i (swap_index_bytes key i)) [0..<256] [0..<256]"

section \<open>The legacy hash (Main.js, vortexEncrypt), up to the salted array\<close>

text \<open>
  \<^verbatim>\<open>let state = [...data];
  for (let i = 0; i < 3; i++) {
      state = state.map((byte, idx) =>
          (byte ^ state[(idx + 5) % state.length]) << 3 | byte >>> 5);
  }\<close>
  \<^verbatim>\<open>state\<close> is a plain array of numbers. \<^verbatim>\<open>^\<close>, \<^verbatim>\<open><<\<close> and \<^verbatim>\<open>|\<close> work on the operands
  wrapped to 32 bits and give a signed result; \<^verbatim>\<open>>>>\<close> shifts the unsigned reading.
  The shifts bind tighter than \<^verbatim>\<open>|\<close>. During \<^verbatim>\<open>map\<close> the variable \<^verbatim>\<open>state\<close> still
  names the array of the previous round.
\<close>

definition diffuse_mix :: "int \<Rightarrow> int \<Rightarrow> int" where
  "diffuse_mix byte other =
     sint (push_bit 3 ((word_of_int byte :: 32 word) XOR word_of_int other)
           OR drop_bit 5 (word_of_int byte :: 32 word))"

definition diffusion_round :: "int list \<Rightarrow> int list" where
  "diffusion_round state =
     map (\<lambda>idx. diffuse_mix (state ! idx) (state ! ((idx + 5) mod length state)))
         [0..<length state]"

definition legacy_state :: "u8 list \<Rightarrow> int list" where
  "legacy_state data = fold (\<lambda>i state. diffusion_round state) [0..<3] (map uint data)"

text \<open>
  \<^verbatim>\<open>const permuted = new Uint8Array(state.length);
  masterKey.forEach((keyByte, i) => {
      const shift = keyByte % 32;
      permuted[i % permuted.length] = state[(i + shift) % state.length];
  });\<close>
  With an empty \<^verbatim>\<open>state\<close> both indices are \<^verbatim>\<open>NaN\<close>, and a typed array ignores a
  write to \<^verbatim>\<open>permuted[NaN]\<close>.
\<close>

definition permute_step :: "int list \<Rightarrow> u8 list \<Rightarrow> nat \<Rightarrow> u8 list \<Rightarrow> u8 list" where
  "permute_step state masterKey i permuted =
     (let shift = unat (masterKey ! i) mod 32
      in if length permuted = 0 \<or> length state = 0 then permuted
         else permuted[i mod length permuted :=
                         to_uint8 (Num (state ! ((i + shift) mod length state)))])"

definition legacy_permuted :: "int list \<Rightarrow> u8 list \<Rightarrow> u8 list" where
  "legacy_permuted state masterKey =
     fold (permute_step state masterKey) [0..<length masterKey] (replicate (length state) 0)"

text \<open>
  \<^verbatim>\<open>const sBox = createDynamicSBox(expandedKey);
  const substituted = permuted.map(b => sBox[b % 256]);\<close>
  \<^verbatim>\<open>map\<close> on a \<^verbatim>\<open>Uint8Array\<close> gives a \<^verbatim>\<open>Uint8Array\<close>: each result is stored through
  ToUint8.
\<close>

definition legacy_substituted :: "jsarray \<Rightarrow> u8 list \<Rightarrow> u8 list" where
  "legacy_substituted sBox permuted =
     map (\<lambda>b. to_uint8 (arr_get sBox (js_rem (Num (uint b)) (Num 256)))) permuted"

text \<open>\<^verbatim>\<open>const salted = substituted.map((b, i) => b ^ salt[i % salt.length]);\<close>\<close>

definition legacy_salted :: "jsobj \<Rightarrow> u8 list \<Rightarrow> u8 list" where
  "legacy_salted salt substituted =
     map (\<lambda>i. to_uint8 (js_xor (Num (uint (substituted ! i)))
                                (get_index salt (js_rem (Num (int i)) (get_length salt)))))
         [0..<length substituted]"

text \<open>
  In vortexEncrypt neither digest is awaited: \<^verbatim>\<open>expandedKey\<close> and \<^verbatim>\<open>salt\<close> are promises
  when the S-box is built and when the salt is applied. \<^verbatim>\<open>data\<close> and \<^verbatim>\<open>masterKey\<close>
  are the UTF-8 bytes of the two arguments.
\<close>

definition vortexEncrypt_substituted :: "u8 list \<Rightarrow> u8 list \<Rightarrow> u8 list" where
  "vortexEncrypt_substituted data masterKey =
     (let expandedKey = PromiseObj;
          state = legacy_state data;
          permuted = legacy_permuted state masterKey;
          sBox = createDynamicSBox expandedKey
      in legacy_substituted sBox permuted)"

definition vortexEncrypt_salted :: "u8 list \<Rightarrow> u8 list \<Rightarrow> u8 list" where
  "vortexEncrypt_salted data masterKey =
     (let salt = PromiseObj
      in legacy_salted salt (vortexEncrypt_substituted data masterKey))"

section \<open>The two avalanche functions\<close>

text \<open>
  The legacy \<^verbatim>\<open>avalancheEffect(state)\<close>, called on the 64-byte \<^verbatim>\<open>Uint8Array\<close> \<^verbatim>\<open>hash\<close>:
  \<^verbatim>\<open>state.map((b, i) => {
      const prev = state[(i - 1 + state.length) % state.length];
      const next = state[(i + 1) % state.length];
      return (b ^ prev ^ next) + (prev & next); })\<close>
  One pass; \<^verbatim>\<open>map\<close> reads the old array and stores each sum modulo 256.
\<close>

definition avalancheEffect :: "u8 list \<Rightarrow> u8 list" where
  "avalancheEffect state =
     map (\<lambda>i. let b = state ! i;
                  prev = state ! ((i + length state - 1) mod length state);
                  next = state ! ((i + 1) mod length state)
              in (b XOR prev XOR next) + (prev AND next))
         [0..<length state]"

text \<open>
  \<^verbatim>\<open>applyAvalancheEffect(buffer)\<close> of the v1.0.1 pipeline:
  \<^verbatim>\<open>const state = new Uint8Array(buffer);
  for (let round = 0; round < 3; round++) {
      state.forEach((_, index) => {
          state[index] ^= state[(index + 7) % state.length];
          state[index] = (state[index] * 0x1F) % 256;\<close>
  The listing of Main.js stops after these two statements; the model closes the callback
  and the loop there and returns \<^verbatim>\<open>state\<close>. \<^verbatim>\<open>new Uint8Array(buffer)\<close> copies the typed
  array it is given, so the argument is not changed. The copy is updated in place, index
  by index, so a later index reads the bytes already rewritten in the same round.
\<close>

definition avalanche_step :: "nat \<Rightarrow> u8 list \<Rightarrow> u8 list" where
  "avalanche_step index state =
     (let state1 = state[index := state ! index XOR state ! ((index + 7) mod length state)]
      in state1[index := state1 ! index * 0x1F])"

definition avalanche_round :: "u8 list \<Rightarrow> u8 list" where
  "avalanche_round state = fold avalanche_step [0..<length state] state"

definition applyAvalancheEffect :: "u8 list \<Rightarrow> u8 list" where
  "applyAvalancheEffect buffer = fold (\<lambda>round state. avalanche_round state) [0..<3] buffer"

section \<open>The v1.0.1 pipeline (Main.js, enhancedVortexEncrypt and processData)\<close>

text \<open>
  The primitives of Web Crypto and the helpers that Main.js calls but whose bodies are
  not in the listing are parameters of the model: \<^verbatim>\<open>crypto.subtle.importKey\<close>,
  \<^verbatim>\<open>deriveCryptoKey\<close>, \<^verbatim>\<open>crypto.subtle.encrypt\<close> with AES-GCM and a 128-bit tag,
  \<^verbatim>\<open>exportKeyMaterial\<close>, \<^verbatim>\<open>applyDynamicSubstitution\<close>, \<^verbatim>\<open>crypto.subtle.digest\<close> with
  SHA-512, \<^verbatim>\<open>crypto.subtle.sign\<close> with HMAC, and \<^verbatim>\<open>encodeSecurityPayload\<close>. \<open>'k\<close> is
  the type of key handles, \<open>'p\<close> the type of the encoded payload. The last two fields
  are the primitives that only the decrypt path of the specification needs.

  processData hands \<^verbatim>\<open>applyDynamicSubstitution\<close> the array \<^verbatim>\<open>new Uint8Array(encrypted)\<close>,
  a view on the \<^verbatim>\<open>ArrayBuffer\<close> that it signs and returns afterwards, so the helper can
  rewrite the ciphertext in place. Its model therefore returns two values: what the
  helper returns, and the contents of that buffer after the call. The primitives of Web
  Crypto do not write to their arguments.
\<close>

record ('k, 'p) crypto =
  importKey :: "u8 list \<Rightarrow> 'k"
  deriveCryptoKey :: "'k \<Rightarrow> u8 list \<Rightarrow> string \<Rightarrow> nat \<Rightarrow> string \<Rightarrow> 'k"
  aesGcmEncrypt :: "'k \<Rightarrow> u8 list \<Rightarrow> u8 list \<Rightarrow> u8 list"
  exportKeyMaterial :: "'k \<Rightarrow> u8 list"
  applyDynamicSubstitution :: "u8 list \<Rightarrow> u8 list \<Rightarrow> u8 list \<times> u8 list"
  digestSHA512 :: "u8 list \<Rightarrow> u8 list"
  hmacSign :: "'k \<Rightarrow> u8 list \<Rightarrow> u8 list"
  encodeSecurityPayload :: "u8 list \<Rightarrow> u8 list \<Rightarrow> u8 list \<Rightarrow> u8 list \<Rightarrow> 'p"
  aesGcmDecrypt :: "'k \<Rightarrow> u8 list \<Rightarrow> u8 list \<Rightarrow> u8 list option"
  invertDynamicSubstitution :: "u8 list \<Rightarrow> u8 list \<Rightarrow> u8 list"

text \<open>
  The object that processData returns. \<^verbatim>\<open>encrypted\<close> is signed and returned after the
  substitution call, so both read the buffer as that call left it. \<^verbatim>\<open>substituted\<close> is
  what the helper returned; applyAvalancheEffect works on a copy of it.
\<close>

record processed =
  encrypted :: "u8 list"
  finalHash :: "u8 list"
  hmac :: "u8 list"

definition processData ::
  "('k, 'p) crypto \<Rightarrow> u8 list \<Rightarrow> 'k \<Rightarrow> u8 list \<Rightarrow> 'k \<Rightarrow> processed" where
  "processData env data aesKey iv hmacKey =
     (let encrypted_buf = aesGcmEncrypt env aesKey iv (applyAvalancheEffect data);
          call = applyDynamicSubstitution env encrypted_buf (exportKeyMaterial env aesKey);
          substituted = fst call;
          encrypted_after = snd call;
          finalHash_buf = digestSHA512 env (applyAvalancheEffect substituted);
          hmac_buf = hmacSign env hmacKey encrypted_after
      in \<lparr>encrypted = encrypted_after, finalHash = finalHash_buf, hmac = hmac_buf\<rparr>)"

text \<open>
  enhancedVortexEncrypt. The two random draws (\<^verbatim>\<open>crypto.getRandomValues\<close> on 16 and
  on 12 bytes) are arguments, \<^verbatim>\<open>input\<close> and \<^verbatim>\<open>key\<close> are the UTF-8 bytes of the two
  strings. The first definition is the function up to \<^verbatim>\<open>processedData\<close>, the second is
  the whole function.
\<close>

definition processedData ::
  "('k, 'p) crypto \<Rightarrow> u8 list \<Rightarrow> u8 list \<Rightarrow> u8 list \<Rightarrow> u8 list \<Rightarrow> processed" where
  "processedData env salt aesIV input key =
     (let baseKey = importKey env key;
          aesKey = deriveCryptoKey env baseKey salt ''AES-GCM'' 256 ''encrypt'';
          hmacKey = deriveCryptoKey env baseKey salt ''HMAC'' 512 ''sign''
      in processData env input aesKey aesIV hmacKey)"

definition enhancedVortexEncrypt ::
  "('k, 'p) crypto \<Rightarrow> u8 list \<Rightarrow> u8 list \<Rightarrow> u8 list \<Rightarrow> u8 list \<Rightarrow> 'p" where
  "enhancedVortexEncrypt env salt aesIV input key =
     (let processedData_obj = processedData env salt aesIV input key
      in encodeSecurityPayload env salt aesIV (hmac processedData_obj)
                               (finalHash processedData_obj))"

section \<open>What the listing lacks, from the specification\<close>

text \<open>
  Modelled from the spec: the body of \<^verbatim>\<open>encodeSecurityPayload\<close> is not in the listing.
  The specification (data model, SecurityPayload) and the header comment of Main.js
  give the payload as the concatenation salt, IV, integrity tag, final digest, in this
  order; these are the four arguments of the call in enhancedVortexEncrypt.
\<close>

definition encodeSecurityPayload_spec ::
  "u8 list \<Rightarrow> u8 list \<Rightarrow> u8 list \<Rightarrow> u8 list \<Rightarrow> u8 list" where
  "encodeSecurityPayload_spec salt iv tag digest = salt @ iv @ tag @ digest"

text \<open>
  Modelled from the spec: Main.js has no decode and no unprotect. The specification
  (payload codec, external interfaces) lays the payload out as salt at offset 0
  (16 bytes), IV at 16 (12), integrity tag at 28 (64), final digest at 92 (64) and the
  ciphertext from 156 on, and rejects with FormatError what is shorter than
  16 + 12 + 64 + 64. Verification then derives the two keys from the secret and the
  extracted salt, compares the HMAC of the extracted ciphertext with the tag
  (IntegrityFailure), compares the recomputed final digest with the digest
  (TamperDetected), inverts the substitution and decrypts (AuthenticationFailure).
  The first component of the result lists the cryptographic operations performed, in
  order.
\<close>

datatype error = FormatError | IntegrityFailure | TamperDetected | AuthenticationFailure

datatype crypto_work = DeriveKey | ComputeHmac | ComputeDigest | Decrypt

record payload_fields =
  field_salt :: "u8 list"
  field_iv :: "u8 list"
  field_tag :: "u8 list"
  field_digest :: "u8 list"
  field_ciphertext :: "u8 list"

definition decode :: "u8 list \<Rightarrow> error + payload_fields" where
  "decode bytes =
     (if length bytes < 16 + 12 + 64 + 64 then Inl FormatError
      else Inr \<lparr>field_salt = take 16 bytes,
                field_iv = take 12 (drop 16 bytes),
                field_tag = take 64 (drop 28 bytes),
                field_digest = take 64 (drop 92 bytes),
                field_ciphertext = drop 156 bytes\<rparr>)"

definition unprotect ::
  "('k, 'p) crypto \<Rightarrow> u8 list \<Rightarrow> u8 list \<Rightarrow> crypto_work list \<times> (error + u8 list)" where
  "unprotect env secret bytes =
     (case decode bytes of
        Inl e \<Rightarrow> ([], Inl e)
      | Inr p \<Rightarrow>
          (let baseKey = importKey env secret;
               cipherKey = deriveCryptoKey env baseKey (field_salt p) ''AES-GCM'' 256 ''encrypt'';
               integrityKey = deriveCryptoKey env baseKey (field_salt p) ''HMAC'' 512 ''sign'';
               substituted = fst (applyDynamicSubstitution env (field_ciphertext p)
                                    (exportKeyMaterial env cipherKey))
           in if hmacSign env integrityKey (field_ciphertext p) \<noteq> field_tag p
              then ([DeriveKey, DeriveKey, ComputeHmac], Inl IntegrityFailure)
              else if digestSHA512 env (applyAvalancheEffect substituted) \<noteq> field_digest p
              then ([DeriveKey, DeriveKey, ComputeHmac, ComputeDigest], Inl TamperDetected)
              else (case aesGcmDecrypt env cipherKey (field_iv p)
                           (invertDynamicSubstitution env substituted
                              (exportKeyMaterial env cipherKey)) of
                      None \<Rightarrow> ([DeriveKey, DeriveKey, ComputeHmac, ComputeDigest, Decrypt],
                               Inl AuthenticationFailure)
                    | Some plaintext \<Rightarrow>
                        ([DeriveKey, DeriveKey, ComputeHmac, ComputeDigest, Decrypt],
                         Inr plaintext))))"

section \<open>A concrete instance of the primitives\<close>

text \<open>
  Stand-ins with the output sizes of the real primitives (a 64-byte MAC and digest, a
  ciphertext 16 bytes longer than the plaintext, keys of the requested number of bits)
  and a substitution that leaves the buffer it is handed as it was, used to evaluate the
  theorems at concrete inputs. They are not cryptography.
\<close>

definition checksum :: "u8 list \<Rightarrow> u8" where
  "checksum bs = fold (+) bs 0"

definition toy_crypto :: "(u8 list, u8 list) crypto" where
  "toy_crypto =
     \<lparr>importKey = (\<lambda>raw. raw),
      deriveCryptoKey = (\<lambda>baseKey salt alg bits usage.
                           replicate (bits div 8) (checksum (baseKey @ salt))),
      aesGcmEncrypt = (\<lambda>k iv plain. map (\<lambda>b. b XOR checksum (k @ iv)) plain
                                       @ replicate 16 (checksum plain)),
      exportKeyMaterial = (\<lambda>k. k),
      applyDynamicSubstitution = (\<lambda>buf material. (map (\<lambda>b. b + checksum material) buf, buf)),
      digestSHA512 = (\<lambda>msg. replicate 64 (checksum msg)),
      hmacSign = (\<lambda>k msg. replicate 64 (checksum (k @ msg))),
      encodeSecurityPayload = encodeSecurityPayload_spec,
      aesGcmDecrypt = (\<lambda>k iv cipher.
                         if length cipher < 16 then None
                         else Some (map (\<lambda>b. b XOR checksum (k @ iv))
                                        (take (length cipher - 16) cipher))),
      invertDynamicSubstitution = (\<lambda>buf material. map (\<lambda>b. b - checksum material) buf)\<rparr>"

definition salt16 :: "u8 list" where
  "salt16 = [1, 2, 3, 4, 5, 6, 7, 8, 9, 10, 11, 12, 13, 14, 15, 16]"

definition iv12 :: "u8 list" where
  "iv12 = [21, 22, 23, 24, 25, 26, 27, 28, 29, 30, 31, 32]"

section \<open>Properties of the S-box\<close>

lemma js_rem_nonneg:
  assumes "0 \<le> a" and "0 < b"
  shows "js_rem (Num a) (Num b) = Num (a mod b)"
proof (cases "a = 0")
  case True
  then show ?thesis using assms by simp
next
  case False
  then have "0 < a" using assms by simp
  then show ?thesis using assms by simp
qed

lemma swapIdx_bytes:
  assumes "key \<noteq> []"
  shows "swapIdx (U8Array key) i = Num (int (swap_index_bytes key i))"
proof -
  have len: "0 < length key" using assms by simp
  have lt: "i mod length key < length key" using len by simp
  have r: "js_rem (Num (int i)) (get_length (U8Array key)) = Num (int (i mod length key))"
    using len by (simp add: js_rem_nonneg zmod_int del: js_rem.simps)
  have g: "get_index (U8Array key) (Num (int (i mod length key)))
             = Num (uint (key ! (i mod length key)))"
    using lt by simp
  have s: "js_add (Num (uint (key ! (i mod length key)))) (js_mul (Num (int i)) (Num 179426549))
             = Num (uint (key ! (i mod length key)) + int i * 179426549)"
    by simp
  have "js_rem (Num (uint (key ! (i mod length key)) + int i * 179426549)) (Num 256)
          = Num ((uint (key ! (i mod length key)) + int i * 179426549) mod 256)"
    by (rule js_rem_nonneg) simp_all
  then show ?thesis
    unfolding swapIdx_def r g s swap_index_bytes_def by simp
qed

lemma swap_index_bytes_less: "swap_index_bytes key i < 256"
proof -
  have "(uint (key ! (i mod length key)) + int i * 179426549) mod 256 < 256"
    by (rule pos_mod_bound) simp
  then show ?thesis by (simp add: swap_index_bytes_def)
qed

lemma length_swap_at: "length (swap_at i j xs) = length xs"
  by (simp add: swap_at_def)

lemma mset_swap_at: "i < length xs \<Longrightarrow> j < length xs \<Longrightarrow> mset (swap_at i j xs) = mset xs"
  unfolding swap_at_def by (rule mset_swap)

lemma map_swap_at:
  "i < length xs \<Longrightarrow> j < length xs \<Longrightarrow> map f (swap_at i j xs) = swap_at i j (map f xs)"
  by (simp add: swap_at_def map_update)

lemma sbox_swap_bytes:
  assumes "key \<noteq> []" and "i < length (elems sb)" and "length (elems sb) = 256"
  shows "sbox_swap (U8Array key) i sb
           = sb\<lparr>elems := swap_at i (swap_index_bytes key i) (elems sb)\<rparr>"
proof -
  have j: "swap_index_bytes key i < length (elems sb)"
    using assms(3) swap_index_bytes_less by simp
  show ?thesis
    using assms(2) j
    by (simp add: sbox_swap_def swapIdx_bytes [OF assms(1)] Let_def arr_get_def arr_set_def
        is_index_def index_of_def swap_at_def)
qed

lemma fold_sbox_swap_bytes:
  assumes "key \<noteq> []"
  shows "length (elems sb) = 256 \<Longrightarrow> \<forall>i\<in>set js. i < 256 \<Longrightarrow>
         fold (sbox_swap (U8Array key)) js sb
           = sb\<lparr>elems := fold (\<lambda>i. swap_at i (swap_index_bytes key i)) js (elems sb)\<rparr>"
proof (induction js arbitrary: sb)
  case Nil
  then show ?case by simp
next
  case (Cons j js)
  have step: "sbox_swap (U8Array key) j sb
                = sb\<lparr>elems := swap_at j (swap_index_bytes key j) (elems sb)\<rparr>"
    using Cons.prems by (intro sbox_swap_bytes [OF assms]) simp_all
  have len: "length (elems (sb\<lparr>elems := swap_at j (swap_index_bytes key j) (elems sb)\<rparr>)) = 256"
    using Cons.prems by (simp add: length_swap_at)
  show ?case
    using Cons.IH [OF len] Cons.prems(2) by (simp add: step)
qed

lemma fold_swap_at_perm:
  "\<forall>i\<in>set js. i < length xs \<Longrightarrow> (\<And>i. f i < length xs) \<Longrightarrow>
   length (fold (\<lambda>i. swap_at i (f i)) js xs) = length xs \<and>
   mset (fold (\<lambda>i. swap_at i (f i)) js xs) = mset xs"
proof (induction js arbitrary: xs)
  case Nil
  then show ?case by simp
next
  case (Cons j js)
  have l: "length (swap_at j (f j) xs) = length xs" by (rule length_swap_at)
  have m: "mset (swap_at j (f j) xs) = mset xs"
    using Cons.prems by (intro mset_swap_at) simp_all
  have "length (fold (\<lambda>i. swap_at i (f i)) js (swap_at j (f j) xs)) = length (swap_at j (f j) xs) \<and>
        mset (fold (\<lambda>i. swap_at i (f i)) js (swap_at j (f j) xs)) = mset (swap_at j (f j) xs)"
    using Cons.prems by (intro Cons.IH) (simp_all add: l)
  then show ?case by (simp add: l m)
qed

lemma sbox_bytes_perm: "length (sbox_bytes key) = 256 \<and> mset (sbox_bytes key) = mset [0..<256]"
  unfolding sbox_bytes_def
  using fold_swap_at_perm [of "[0..<256]" "[0..<256]" "swap_index_bytes key"]
  by (simp add: swap_index_bytes_less)

lemma fold_swap_at_map:
  "\<forall>i\<in>set js. i < length xs \<Longrightarrow> (\<And>i. g i < length xs) \<Longrightarrow>
   fold (\<lambda>i. swap_at i (g i)) js (map f xs) = map f (fold (\<lambda>i. swap_at i (g i)) js xs)"
proof (induction js arbitrary: xs)
  case Nil
  then show ?case by simp
next
  case (Cons j js)
  have s: "swap_at j (g j) (map f xs) = map f (swap_at j (g j) xs)"
    using Cons.prems by (simp add: map_swap_at)
  have "fold (\<lambda>i. swap_at i (g i)) js (map f (swap_at j (g j) xs))
          = map f (fold (\<lambda>i. swap_at i (g i)) js (swap_at j (g j) xs))"
    using Cons.prems by (intro Cons.IH) (simp_all add: length_swap_at)
  then show ?case by (simp add: s)
qed

text \<open>
  Claim C9. For every non-empty key byte array, createDynamicSBox returns a table of 256
  entries that is a permutation of the byte values 0..255, each value exactly once. It is
  the table obtained from the identity table by the 256 swaps of entry \<open>i\<close> with entry
  \<open>(key[i mod length key] + i * 179426549) mod 256\<close>, for \<open>i\<close> from 0 to 255, and the
  array gets no other property.
\<close>

theorem createDynamicSBox_permutation:
  assumes "key \<noteq> []"
  shows "elems (createDynamicSBox (U8Array key)) = map (\<lambda>n. Num (int n)) (sbox_bytes key)
       \<and> props (createDynamicSBox (U8Array key)) = (\<lambda>k. Undefined)
       \<and> length (sbox_bytes key) = 256
       \<and> mset (sbox_bytes key) = mset [0..<256]
       \<and> distinct (sbox_bytes key)
       \<and> set (sbox_bytes key) = {0..<256}"
proof -
  have f: "createDynamicSBox (U8Array key)
             = identity_table\<lparr>elems := fold (\<lambda>i. swap_at i (swap_index_bytes key i)) [0..<256]
                                         (elems identity_table)\<rparr>"
    unfolding createDynamicSBox_def
    by (rule fold_sbox_swap_bytes [OF assms]) (simp_all add: identity_table_def)
  have e: "elems identity_table = map (\<lambda>n. Num (int n)) [0..<256]"
    by (simp add: identity_table_def)
  have c: "fold (\<lambda>i. swap_at i (swap_index_bytes key i)) [0..<256] (map (\<lambda>n. Num (int n)) [0..<256])
             = map (\<lambda>n. Num (int n)) (sbox_bytes key)"
    unfolding sbox_bytes_def
    by (rule fold_swap_at_map) (simp_all add: swap_index_bytes_less)
  have p: "props (createDynamicSBox (U8Array key)) = (\<lambda>k. Undefined)"
    by (simp add: f identity_table_def)
  have m: "mset (sbox_bytes key) = mset [0..<256]" and l: "length (sbox_bytes key) = 256"
    using sbox_bytes_perm by simp_all
  have d: "distinct (sbox_bytes key)"
    using mset_eq_imp_distinct_iff [OF m] by simp
  have st: "set (sbox_bytes key) = {0..<256}"
    using mset_eq_setD [OF m] by simp
  show ?thesis
    using p m l d st by (simp add: f e c)
qed

text \<open>The theorem at the three-byte key 1, 2, 3.\<close>

theorem createDynamicSBox_permutation_witness:
  "[1, 2, 3 :: u8] \<noteq> []
   \<and> elems (createDynamicSBox (U8Array [1, 2, 3])) = map (\<lambda>n. Num (int n)) (sbox_bytes [1, 2, 3])
   \<and> mset (sbox_bytes [1, 2, 3]) = mset [0..<256]
   \<and> distinct (sbox_bytes [1, 2, 3])"
  using createDynamicSBox_permutation [of "[1, 2, 3]"] by simp

section \<open>Properties of the diffusion pass\<close>

lemma applyAvalancheEffect_rounds:
  "applyAvalancheEffect buffer = avalanche_round (avalanche_round (avalanche_round buffer))"
  by (simp add: applyAvalancheEffect_def numeral_3_eq_3)

lemma avalanche_step_update:
  "i < length s \<Longrightarrow>
   avalanche_step i s = s[i := (s ! i XOR s ! ((i + 7) mod length s)) * 0x1F]"
  by (simp add: avalanche_step_def Let_def)

lemma avalanche_step_other: "i \<noteq> j \<Longrightarrow> avalanche_step j s ! i = s ! i"
  by (simp add: avalanche_step_def Let_def)

lemma length_avalanche_step: "length (avalanche_step i s) = length s"
  by (simp add: avalanche_step_def Let_def)

lemma length_fold_avalanche_step: "length (fold avalanche_step js s) = length s"
  by (induction js arbitrary: s) (simp_all add: length_avalanche_step)

lemma fold_avalanche_step_untouched:
  "i \<notin> set js \<Longrightarrow> fold avalanche_step js s ! i = s ! i"
  by (induction js arbitrary: s) (simp_all add: avalanche_step_other)

lemma length_avalanche_round: "length (avalanche_round s) = length s"
  by (simp add: avalanche_round_def length_fold_avalanche_step)

lemma avalanche_round_nth:
  assumes "i < length s"
  shows "avalanche_round s ! i =
           (s ! i XOR (if (i + 7) mod length s < i
                       then avalanche_round s ! ((i + 7) mod length s)
                       else s ! ((i + 7) mod length s))) * 0x1F"
proof -
  define n where "n = length s"
  define j where "j = (i + 7) mod n"
  define before where "before = fold avalanche_step [0..<i] s"
  have split: "[0..<n] = [0..<i] @ [i..<n]"
    using assms unfolding n_def by (metis le_add_diff_inverse less_imp_le_nat upt_add_eq_append zero_le)
  have split2: "[i..<n] = i # [Suc i..<n]"
    using assms unfolding n_def by (simp add: upt_conv_Cons)
  have round_eq: "avalanche_round s = fold avalanche_step [Suc i..<n] (avalanche_step i before)"
    unfolding avalanche_round_def before_def n_def [symmetric] by (simp add: split split2)
  have len: "length before = n"
    by (simp add: before_def n_def length_fold_avalanche_step)
  have own: "before ! i = s ! i"
    unfolding before_def by (rule fold_avalanche_step_untouched) simp
  have at_i: "avalanche_round s ! i = avalanche_step i before ! i"
    unfolding round_eq by (rule fold_avalanche_step_untouched) simp
  have step: "avalanche_step i before ! i = (before ! i XOR before ! j) * 0x1F"
    using assms by (simp add: avalanche_step_update len j_def n_def [symmetric])
  have other: "before ! j = (if j < i then avalanche_round s ! j else s ! j)"
  proof (cases "j < i")
    case True
    have "avalanche_round s ! j = fold avalanche_step [i..<n] before ! j"
      unfolding avalanche_round_def before_def n_def [symmetric] by (simp add: split)
    also have "\<dots> = before ! j"
      by (rule fold_avalanche_step_untouched) (use True in simp)
    finally show ?thesis using True by simp
  next
    case False
    have "before ! j = s ! j"
      unfolding before_def by (rule fold_avalanche_step_untouched) (use False in simp)
    then show ?thesis using False by simp
  qed
  have "avalanche_round s ! i = (s ! i XOR (if j < i then avalanche_round s ! j else s ! j)) * 0x1F"
    by (simp only: at_i step own other)
  then show ?thesis
    by (simp only: j_def n_def)
qed

lemma length_applyAvalancheEffect: "length (applyAvalancheEffect buffer) = length buffer"
  by (simp add: applyAvalancheEffect_rounds length_avalanche_round)

lemma avalancheEffect_nth:
  assumes "i < length state"
  shows "avalancheEffect state ! i
           = (state ! i XOR state ! ((i + length state - 1) mod length state)
                        XOR state ! ((i + 1) mod length state))
             + (state ! ((i + length state - 1) mod length state)
                AND state ! ((i + 1) mod length state))"
  using assms by (simp add: avalancheEffect_def Let_def)

text \<open>
  Claim C6, as amended. applyAvalancheEffect is three rounds of avalanche_round and has
  no key. A round keeps the length and rewrites the bytes in place in index order: the
  byte at index \<open>i\<close> becomes \<open>(b XOR other) * 31 mod 256\<close>, where \<open>other\<close> is the byte at
  \<open>(i + 7) mod length\<close>, already rewritten in this round when that index is below \<open>i\<close>.
  The formula \<open>(b XOR left XOR right) + (left AND right) mod 256\<close> over the two circular
  neighbours is the legacy avalancheEffect, which is a single pass.
\<close>

theorem diffusion_round_shape:
  assumes "i < length state"
  shows "applyAvalancheEffect state = avalanche_round (avalanche_round (avalanche_round state))
       \<and> length (avalanche_round state) = length state
       \<and> avalanche_round state ! i
           = (state ! i XOR (if (i + 7) mod length state < i
                             then avalanche_round state ! ((i + 7) mod length state)
                             else state ! ((i + 7) mod length state))) * 0x1F
       \<and> length (avalancheEffect state) = length state
       \<and> avalancheEffect state ! i
           = (state ! i XOR state ! ((i + length state - 1) mod length state)
                        XOR state ! ((i + 1) mod length state))
             + (state ! ((i + length state - 1) mod length state)
                AND state ! ((i + 1) mod length state))"
proof (intro conjI)
  show "applyAvalancheEffect state = avalanche_round (avalanche_round (avalanche_round state))"
    by (rule applyAvalancheEffect_rounds)
  show "length (avalanche_round state) = length state"
    by (rule length_avalanche_round)
  show "avalanche_round state ! i
           = (state ! i XOR (if (i + 7) mod length state < i
                             then avalanche_round state ! ((i + 7) mod length state)
                             else state ! ((i + 7) mod length state))) * 0x1F"
    by (rule avalanche_round_nth [OF assms])
  show "length (avalancheEffect state) = length state"
    by (simp add: avalancheEffect_def)
  show "avalancheEffect state ! i
           = (state ! i XOR state ! ((i + length state - 1) mod length state)
                        XOR state ! ((i + 1) mod length state))
             + (state ! ((i + length state - 1) mod length state)
                AND state ! ((i + 1) mod length state))"
    by (rule avalancheEffect_nth [OF assms])
qed

text \<open>
  The theorem at index 0 of a ten-byte buffer whose only non-zero byte is at index 7.
\<close>

theorem diffusion_round_shape_witness:
  "(0::nat) < length [0, 0, 0, 0, 0, 0, 0, 1, 0, 0 :: u8]
   \<and> avalanche_round [0, 0, 0, 0, 0, 0, 0, 1, 0, 0 :: u8] ! 0 = 31
   \<and> avalancheEffect [0, 0, 0, 0, 0, 0, 0, 1, 0, 0 :: u8] ! 0 = 0"
  using diffusion_round_shape [of 0 "[0, 0, 0, 0, 0, 0, 0, 1, 0, 0]"] by simp

text \<open>
  Claim C6 as stated fails: a round of the diffusion pass is not a function of a byte
  and its two neighbours. Two ten-byte buffers that differ only at index 7 have the same
  bytes at indices 9, 0 and 1, and different bytes at index 0 after one round.
\<close>

theorem diffusion_not_neighbour_function:
  "\<not> (\<exists>f. \<forall>state i. i < length state \<longrightarrow>
          avalanche_round state ! i
            = f (state ! i) (state ! ((i + length state - 1) mod length state))
                (state ! ((i + 1) mod length state)))"
proof
  assume "\<exists>f. \<forall>state i. i < length state \<longrightarrow>
            avalanche_round state ! i
              = f (state ! i) (state ! ((i + length state - 1) mod length state))
                  (state ! ((i + 1) mod length state))"
  then obtain f where f: "\<And>state i. i < length state \<Longrightarrow>
            avalanche_round state ! i
              = f (state ! i) (state ! ((i + length state - 1) mod length state))
                  (state ! ((i + 1) mod length state))"
    by blast
  have a: "avalanche_round [0, 0, 0, 0, 0, 0, 0, 0, 0, 0 :: u8] ! 0 = 0"
    using avalanche_round_nth [of 0 "[0, 0, 0, 0, 0, 0, 0, 0, 0, 0]"] by simp
  have b: "avalanche_round [0, 0, 0, 0, 0, 0, 0, 1, 0, 0 :: u8] ! 0 = 31"
    using avalanche_round_nth [of 0 "[0, 0, 0, 0, 0, 0, 0, 1, 0, 0]"] by simp
  have "avalanche_round [0, 0, 0, 0, 0, 0, 0, 0, 0, 0 :: u8] ! 0 = f 0 0 0"
    using f [of 0 "[0, 0, 0, 0, 0, 0, 0, 0, 0, 0]"] by simp
  moreover have "avalanche_round [0, 0, 0, 0, 0, 0, 0, 1, 0, 0 :: u8] ! 0 = f 0 0 0"
    using f [of 0 "[0, 0, 0, 0, 0, 0, 0, 1, 0, 0]"] by simp
  ultimately show False using a b by simp
qed

lemma applyAvalancheEffect_example: "applyAvalancheEffect [1, 2, 3, 4, 5, 6, 7, 8] = [19, 203, 87, 179, 184, 68, 72, 76]"
  by code_simp

section \<open>Properties of the legacy salt step\<close>

lemma sint_of_byte: "sint (word_of_int (uint (b::u8)) :: 32 word) = uint b"
proof -
  have lt: "uint b < 2 ^ 8" using uint_lt2p [of b] by simp
  have ge: "- (2 ^ 31) \<le> uint b"
    by (rule order_trans [of _ 0]) simp_all
  have lt31: "uint b < 2 ^ 31" using lt by simp
  have "signed_take_bit 31 (uint b) = uint b"
    using ge lt31 by (rule signed_take_bit_int_eq_self)
  then show ?thesis
    by (simp only: sint_sbintrunc') simp
qed

lemma xor_undefined: "to_uint8 (js_xor (Num (uint (b::u8))) Undefined) = b"
proof -
  have "js_xor (Num (uint b)) Undefined = Num (sint (word_of_int (uint b) :: 32 word))"
    by (simp add: js_xor_def)
  then show ?thesis
    by (simp only: sint_of_byte to_uint8.simps word_of_int_uint)
qed

lemma promise_index: "get_index PromiseObj (js_rem (Num (int i)) (get_length PromiseObj)) = Undefined"
  by simp

lemma legacy_salted_promise: "legacy_salted PromiseObj substituted = substituted"
proof (rule nth_equalityI)
  show "length (legacy_salted PromiseObj substituted) = length substituted"
    by (simp add: legacy_salted_def)
next
  fix i assume "i < length (legacy_salted PromiseObj substituted)"
  then have i: "i < length substituted" by (simp add: legacy_salted_def)
  then show "legacy_salted PromiseObj substituted ! i = substituted ! i"
    by (simp add: legacy_salted_def xor_undefined del: js_rem.simps)
qed

text \<open>
  Claim C10. In the legacy vortexEncrypt the salt is a promise: it has no length, so
  \<^verbatim>\<open>salt[i % salt.length]\<close> is \<^verbatim>\<open>undefined\<close> at every index, \<^verbatim>\<open>b ^ undefined\<close> is \<^verbatim>\<open>b\<close> for
  every byte, and the salted array equals the substituted array for every input and
  key.
\<close>

theorem salt_xor_is_identity:
  "get_length PromiseObj = Undefined
   \<and> get_index PromiseObj (js_rem (Num (int i)) (get_length PromiseObj)) = Undefined
   \<and> to_uint8 (js_xor (Num (uint b)) Undefined) = b
   \<and> legacy_salted PromiseObj substituted = substituted
   \<and> vortexEncrypt_salted data masterKey = vortexEncrypt_substituted data masterKey"
proof (intro conjI)
  show "get_length PromiseObj = Undefined"
    by simp
  show "get_index PromiseObj (js_rem (Num (int i)) (get_length PromiseObj)) = Undefined"
    by (rule promise_index)
  show "to_uint8 (js_xor (Num (uint b)) Undefined) = b"
    by (rule xor_undefined)
  show "legacy_salted PromiseObj substituted = substituted"
    by (rule legacy_salted_promise)
  show "vortexEncrypt_salted data masterKey = vortexEncrypt_substituted data masterKey"
    unfolding vortexEncrypt_salted_def Let_def by (rule legacy_salted_promise)
qed

text \<open>
  The theorem at the input "Sec" and the key "Pass".
\<close>

theorem salt_xor_is_identity_witness:
  "vortexEncrypt_salted [0x53, 0x65, 0x63] [0x50, 0x61, 0x73, 0x73]
     = vortexEncrypt_substituted [0x53, 0x65, 0x63] [0x50, 0x61, 0x73, 0x73]"
  using salt_xor_is_identity [of 0 0 "[]" "[0x53, 0x65, 0x63]" "[0x50, 0x61, 0x73, 0x73]"] by simp

section \<open>Properties of the v1.0.1 pipeline\<close>

lemma processData_fields:
  "encrypted (processData env data aesKey iv hmacKey)
     = snd (applyDynamicSubstitution env (aesGcmEncrypt env aesKey iv (applyAvalancheEffect data))
              (exportKeyMaterial env aesKey))"
  "hmac (processData env data aesKey iv hmacKey)
     = hmacSign env hmacKey (encrypted (processData env data aesKey iv hmacKey))"
  "finalHash (processData env data aesKey iv hmacKey)
     = digestSHA512 env (applyAvalancheEffect
         (fst (applyDynamicSubstitution env (aesGcmEncrypt env aesKey iv (applyAvalancheEffect data))
                 (exportKeyMaterial env aesKey))))"
  by (simp_all add: processData_def Let_def)

lemma processedData_unfold:
  "processedData env salt aesIV input key
     = processData env input
         (deriveCryptoKey env (importKey env key) salt ''AES-GCM'' 256 ''encrypt'') aesIV
         (deriveCryptoKey env (importKey env key) salt ''HMAC'' 512 ''sign'')"
  by (simp add: processedData_def Let_def)

lemma processedData_hmac:
  "hmac (processedData env salt aesIV input key)
     = hmacSign env (deriveCryptoKey env (importKey env key) salt ''HMAC'' 512 ''sign'')
         (encrypted (processedData env salt aesIV input key))"
  by (simp only: processedData_unfold processData_fields(2))

lemma processedData_finalHash:
  "finalHash (processedData env salt aesIV input key)
     = digestSHA512 env (applyAvalancheEffect
         (fst (applyDynamicSubstitution env
            (aesGcmEncrypt env (deriveCryptoKey env (importKey env key) salt ''AES-GCM'' 256 ''encrypt'')
               aesIV (applyAvalancheEffect input))
            (exportKeyMaterial env
               (deriveCryptoKey env (importKey env key) salt ''AES-GCM'' 256 ''encrypt'')))))"
  by (simp only: processedData_unfold processData_fields(3))

lemma processedData_encrypted:
  "encrypted (processedData env salt aesIV input key)
     = snd (applyDynamicSubstitution env
         (aesGcmEncrypt env (deriveCryptoKey env (importKey env key) salt ''AES-GCM'' 256 ''encrypt'')
            aesIV (applyAvalancheEffect input))
         (exportKeyMaterial env
            (deriveCryptoKey env (importKey env key) salt ''AES-GCM'' 256 ''encrypt'')))"
  by (simp only: processedData_unfold processData_fields(1))

lemma payload_fields:
  "enhancedVortexEncrypt env salt aesIV input key
     = encodeSecurityPayload env salt aesIV (hmac (processedData env salt aesIV input key))
         (finalHash (processedData env salt aesIV input key))"
  by (simp add: enhancedVortexEncrypt_def Let_def)

lemma payload_concat:
  assumes "encodeSecurityPayload env = encodeSecurityPayload_spec"
  shows "enhancedVortexEncrypt env salt aesIV input key
           = salt @ aesIV @ hmac (processedData env salt aesIV input key)
                  @ finalHash (processedData env salt aesIV input key)"
  by (simp add: payload_fields assms encodeSecurityPayload_spec_def)






lemma toy_crypto_sizes:
  "encodeSecurityPayload toy_crypto = encodeSecurityPayload_spec"
  "length (hmacSign toy_crypto k m) = 64"
  "length (digestSHA512 toy_crypto m) = 64"
  "length (aesGcmEncrypt toy_crypto k iv plain) = length plain + 16"
  "snd (applyDynamicSubstitution toy_crypto buffer material) = buffer"
  by (simp_all add: toy_crypto_def)

lemma length_salt16: "length salt16 = 16"
  by (simp add: salt16_def)

lemma length_iv12: "length iv12 = 12"
  by (simp add: iv12_def)




text \<open>
  Claim C2, as amended. With the concatenating encoder, a 16-byte salt, a 12-byte IV
  and 64-byte outputs of HMAC and SHA-512, every payload of enhancedVortexEncrypt is
  exactly salt, IV, integrity tag and final digest: 156 bytes whatever the plaintext,
  with nothing after offset 156. The ciphertext is not passed to the encoder.
\<close>

theorem payload_is_four_fixed_fields:
  assumes "encodeSecurityPayload env = encodeSecurityPayload_spec"
    and "length salt = 16" and "length aesIV = 12"
    and "\<And>k m. length (hmacSign env k m) = 64"
    and "\<And>m. length (digestSHA512 env m) = 64"
  shows "enhancedVortexEncrypt env salt aesIV input key
           = salt @ aesIV @ hmac (processedData env salt aesIV input key)
                  @ finalHash (processedData env salt aesIV input key)
       \<and> length (enhancedVortexEncrypt env salt aesIV input key) = 16 + 12 + 64 + 64
       \<and> drop 156 (enhancedVortexEncrypt env salt aesIV input key) = []"
proof -
  have h: "length (hmac (processedData env salt aesIV input key)) = 64"
    by (simp only: processedData_hmac assms(4))
  have f: "length (finalHash (processedData env salt aesIV input key)) = 64"
    by (simp only: processedData_finalHash assms(5))
  show ?thesis
    by (simp add: payload_concat [OF assms(1)] assms(2,3) h f)
qed

text \<open>
  The theorem at the plaintext "hello" and the secret "pw".
\<close>

theorem payload_is_four_fixed_fields_witness:
  "encodeSecurityPayload toy_crypto = encodeSecurityPayload_spec
   \<and> length salt16 = 16 \<and> length iv12 = 12
   \<and> (\<forall>k m. length (hmacSign toy_crypto k m) = 64)
   \<and> (\<forall>m. length (digestSHA512 toy_crypto m) = 64)
   \<and> length (enhancedVortexEncrypt toy_crypto salt16 iv12 [0x68, 0x65, 0x6C, 0x6C, 0x6F] [0x70, 0x77])
       = 16 + 12 + 64 + 64"
proof -
  have e: "encodeSecurityPayload toy_crypto = encodeSecurityPayload_spec"
    by (rule toy_crypto_sizes)
  have h: "\<And>k m. length (hmacSign toy_crypto k m) = 64"
    by (rule toy_crypto_sizes)
  have d: "\<And>m. length (digestSHA512 toy_crypto m) = 64"
    by (rule toy_crypto_sizes)
  have "length (enhancedVortexEncrypt toy_crypto salt16 iv12 [0x68, 0x65, 0x6C, 0x6C, 0x6F] [0x70, 0x77])
          = 16 + 12 + 64 + 64"
    using payload_is_four_fixed_fields [OF e length_salt16 length_iv12 h d] by blast
  then show ?thesis
    using e h d length_salt16 length_iv12 by (intro conjI allI)
qed

text \<open>
  Claim C2 as stated fails at the plaintext "hello" and the secret "pw": the ciphertext
  with its 16-byte tag has 21 bytes, the payload has 156 bytes and not 156 + 21.
\<close>

theorem payload_length_counterexample:
  "length (encrypted (processedData toy_crypto salt16 iv12 [0x68, 0x65, 0x6C, 0x6C, 0x6F] [0x70, 0x77])) = 21
   \<and> length (enhancedVortexEncrypt toy_crypto salt16 iv12 [0x68, 0x65, 0x6C, 0x6C, 0x6F] [0x70, 0x77]) = 156
   \<and> length (enhancedVortexEncrypt toy_crypto salt16 iv12 [0x68, 0x65, 0x6C, 0x6C, 0x6F] [0x70, 0x77])
       \<noteq> 16 + 12 + 64 + 64
          + length (encrypted (processedData toy_crypto salt16 iv12 [0x68, 0x65, 0x6C, 0x6C, 0x6F] [0x70, 0x77]))"
proof -
  have c: "length (encrypted (processedData toy_crypto salt16 iv12 [0x68, 0x65, 0x6C, 0x6C, 0x6F] [0x70, 0x77])) = 21"
    by (simp add: processedData_encrypted toy_crypto_sizes length_applyAvalancheEffect)
  have p: "length (enhancedVortexEncrypt toy_crypto salt16 iv12 [0x68, 0x65, 0x6C, 0x6C, 0x6F] [0x70, 0x77]) = 156"
    by (simp add: payload_concat toy_crypto_sizes processedData_hmac processedData_finalHash
        length_salt16 length_iv12)
  show ?thesis by (simp add: c p)
qed

lemma processData_in_place_substitution:
  assumes "applyDynamicSubstitution env = (\<lambda>buffer material. (f buffer material, f buffer material))"
  shows "hmac (processData env data aesKey iv hmacKey)
           = hmacSign env hmacKey
               (f (aesGcmEncrypt env aesKey iv (applyAvalancheEffect data))
                  (exportKeyMaterial env aesKey))"
  by (simp add: processData_def Let_def assms)



text \<open>
  Claim C4. The final digest that processData returns, and that enhancedVortexEncrypt
  hands to the encoder as the fourth field, is SHA-512 of one applyAvalancheEffect pass
  over what the substitution layer returns for the AES-GCM output. When the
  substitution does not write to the buffer it is handed, that output is also the
  returned \<^verbatim>\<open>encrypted\<close> field.
\<close>

theorem final_digest_over_diffused_substitution:
  "finalHash (processData env data aesKey iv hmacKey)
     = digestSHA512 env (applyAvalancheEffect
         (fst (applyDynamicSubstitution env
                 (aesGcmEncrypt env aesKey iv (applyAvalancheEffect data))
                 (exportKeyMaterial env aesKey))))
   \<and> enhancedVortexEncrypt env salt aesIV input key
     = encodeSecurityPayload env salt aesIV
         (hmac (processedData env salt aesIV input key))
         (digestSHA512 env (applyAvalancheEffect
            (fst (applyDynamicSubstitution env
                    (aesGcmEncrypt env
                       (deriveCryptoKey env (importKey env key) salt ''AES-GCM'' 256 ''encrypt'')
                       aesIV (applyAvalancheEffect input))
                    (exportKeyMaterial env
                       (deriveCryptoKey env (importKey env key) salt ''AES-GCM'' 256 ''encrypt''))))))
   \<and> ((\<forall>buffer material. snd (applyDynamicSubstitution env buffer material) = buffer)
        \<longrightarrow> encrypted (processData env data aesKey iv hmacKey)
              = aesGcmEncrypt env aesKey iv (applyAvalancheEffect data)
          \<and> finalHash (processData env data aesKey iv hmacKey)
              = digestSHA512 env (applyAvalancheEffect
                  (fst (applyDynamicSubstitution env
                          (encrypted (processData env data aesKey iv hmacKey))
                          (exportKeyMaterial env aesKey)))))"
proof (intro conjI impI)
  show "finalHash (processData env data aesKey iv hmacKey)
     = digestSHA512 env (applyAvalancheEffect
         (fst (applyDynamicSubstitution env
                 (aesGcmEncrypt env aesKey iv (applyAvalancheEffect data))
                 (exportKeyMaterial env aesKey))))"
    by (rule processData_fields)
  show "enhancedVortexEncrypt env salt aesIV input key
     = encodeSecurityPayload env salt aesIV
         (hmac (processedData env salt aesIV input key))
         (digestSHA512 env (applyAvalancheEffect
            (fst (applyDynamicSubstitution env
                    (aesGcmEncrypt env
                       (deriveCryptoKey env (importKey env key) salt ''AES-GCM'' 256 ''encrypt'')
                       aesIV (applyAvalancheEffect input))
                    (exportKeyMaterial env
                       (deriveCryptoKey env (importKey env key) salt ''AES-GCM'' 256 ''encrypt''))))))"
    by (simp only: payload_fields processedData_finalHash)
next
  assume pure: "\<forall>buffer material. snd (applyDynamicSubstitution env buffer material) = buffer"
  show kept: "encrypted (processData env data aesKey iv hmacKey)
              = aesGcmEncrypt env aesKey iv (applyAvalancheEffect data)"
    using pure by (simp add: processData_fields(1))
  show "finalHash (processData env data aesKey iv hmacKey)
              = digestSHA512 env (applyAvalancheEffect
                  (fst (applyDynamicSubstitution env
                          (encrypted (processData env data aesKey iv hmacKey))
                          (exportKeyMaterial env aesKey))))"
    by (simp only: kept processData_fields(3))
qed

text \<open>
  The theorem at a two-byte plaintext, with a substitution that leaves its buffer.
\<close>

theorem final_digest_over_diffused_substitution_witness:
  "(\<forall>buffer material. snd (applyDynamicSubstitution toy_crypto buffer material) = buffer)
   \<and> finalHash (processData toy_crypto [0x68, 0x69] [7, 7] iv12 [9, 9])
     = digestSHA512 toy_crypto (applyAvalancheEffect
         (fst (applyDynamicSubstitution toy_crypto
                 (encrypted (processData toy_crypto [0x68, 0x69] [7, 7] iv12 [9, 9]))
                 (exportKeyMaterial toy_crypto [7, 7]))))"
proof -
  have p: "\<forall>buffer material. snd (applyDynamicSubstitution toy_crypto buffer material) = buffer"
    by (simp add: toy_crypto_sizes)
  note t = final_digest_over_diffused_substitution [of toy_crypto "[0x68, 0x69]" "[7, 7]" iv12 "[9, 9]"]
  show ?thesis
    using p t by blast
qed

text \<open>
  Claim C5. With the concatenating encoder, a 16-byte salt, a 12-byte IV and an HMAC of
  64 bytes (HMAC-SHA-512), the 64 bytes of the payload from offset 28 are the whole
  output of the HMAC over the ciphertext: the tag is stored untruncated.
\<close>

theorem integrity_tag_is_full_hmac_output:
  assumes "encodeSecurityPayload env = encodeSecurityPayload_spec"
    and "length salt = 16" and "length aesIV = 12"
    and "\<And>k m. length (hmacSign env k m) = 64"
  shows "take 64 (drop 28 (enhancedVortexEncrypt env salt aesIV input key))
           = hmacSign env (deriveCryptoKey env (importKey env key) salt ''HMAC'' 512 ''sign'')
               (encrypted (processedData env salt aesIV input key))
       \<and> length (take 64 (drop 28 (enhancedVortexEncrypt env salt aesIV input key))) = 64
       \<and> hmac (processedData env salt aesIV input key)
           = hmacSign env (deriveCryptoKey env (importKey env key) salt ''HMAC'' 512 ''sign'')
               (encrypted (processedData env salt aesIV input key))"
proof -
  have h: "hmac (processedData env salt aesIV input key)
             = hmacSign env (deriveCryptoKey env (importKey env key) salt ''HMAC'' 512 ''sign'')
                 (encrypted (processedData env salt aesIV input key))"
    by (rule processedData_hmac)
  have l: "length (hmac (processedData env salt aesIV input key)) = 64"
    by (simp only: h assms(4))
  have t: "take 64 (drop 28 (enhancedVortexEncrypt env salt aesIV input key))
             = hmac (processedData env salt aesIV input key)"
    by (simp add: payload_concat [OF assms(1)] assms(2,3) l)
  show ?thesis
    using h l by (simp only: t)
qed

text \<open>
  The theorem at the plaintext "hi" and the secret "pw".
\<close>

theorem integrity_tag_is_full_hmac_output_witness:
  "encodeSecurityPayload toy_crypto = encodeSecurityPayload_spec
   \<and> length salt16 = 16 \<and> length iv12 = 12
   \<and> (\<forall>k m. length (hmacSign toy_crypto k m) = 64)
   \<and> length (take 64 (drop 28 (enhancedVortexEncrypt toy_crypto salt16 iv12 [0x68, 0x69] [0x70, 0x77]))) = 64
   \<and> take 64 (drop 28 (enhancedVortexEncrypt toy_crypto salt16 iv12 [0x68, 0x69] [0x70, 0x77]))
       = hmac (processedData toy_crypto salt16 iv12 [0x68, 0x69] [0x70, 0x77])"
proof -
  have e: "encodeSecurityPayload toy_crypto = encodeSecurityPayload_spec"
    by (rule toy_crypto_sizes)
  have h: "\<And>k m. length (hmacSign toy_crypto k m) = 64"
    by (rule toy_crypto_sizes)
  note t = integrity_tag_is_full_hmac_output [OF e length_salt16 length_iv12 h, of "[0x68, 0x69]" "[0x70, 0x77]"]
  have a: "length (take 64 (drop 28 (enhancedVortexEncrypt toy_crypto salt16 iv12 [0x68, 0x69] [0x70, 0x77]))) = 64"
    using t by (elim conjE)
  have b: "take 64 (drop 28 (enhancedVortexEncrypt toy_crypto salt16 iv12 [0x68, 0x69] [0x70, 0x77]))
             = hmac (processedData toy_crypto salt16 iv12 [0x68, 0x69] [0x70, 0x77])"
    using t by (elim conjE) (simp only:)
  show ?thesis
    using e h length_salt16 length_iv12 a b by (intro conjI allI)
qed

section \<open>Properties of the decode path\<close>

text \<open>
  Claim C7. A byte sequence shorter than 156 bytes is rejected by decode and by unprotect
  with FormatError, and unprotect has performed no cryptographic operation.
\<close>

theorem short_payload_rejected_before_crypto:
  assumes "length bytes < 156"
  shows "decode bytes = Inl FormatError \<and> unprotect env secret bytes = ([], Inl FormatError)"
  using assms by (simp add: decode_def unprotect_def)

text \<open>
  The theorem at 155 zero bytes.
\<close>

theorem short_payload_rejected_before_crypto_witness:
  "length (replicate 155 (0::u8)) < 156
   \<and> unprotect toy_crypto [0x70, 0x77] (replicate 155 0) = ([], Inl FormatError)"
  using short_payload_rejected_before_crypto [of "replicate 155 0" toy_crypto "[0x70, 0x77]"] by simp

end
